theory Spec2Isabelle
  imports Complex_Main "HOL-Library.Char_ord" "HOL-Library.List_Lexorder"
    "HOL-Library.Product_Lexorder" "HOL-Library.AList" "HOL-Library.Multiset"
begin

section \<open>rpt2ogd77: repeater registry to OpenGD77 channel and zone lists\<close>

text \<open>
  A shallow embedding of \<^verbatim>\<open>src/rpt2ogd77.py\<close>. A Python \<^verbatim>\<open>str\<close> is a \<open>string\<close>
  whose characters are the code points below 256 (Latin-1, which holds the
  \<^verbatim>\<open>U+00D8\<close> that the script rewrites in callsigns); the character classes of the
  Python library are written out for that range. A \<^verbatim>\<open>dict\<close> is an association list
  in insertion order. An exception is a value of \<open>py_error\<close>; a loop that does not
  return is \<open>None\<close>.
\<close>

subsection \<open>Python values and exceptions\<close>

datatype py_error =
    IndexError | KeyError | ValueError | TypeError | InvalidOperation
  | Unmodelled
    \<comment> \<open>the run leaves the fragment of the \<^verbatim>\<open>decimal\<close> and \<^verbatim>\<open>int\<close> libraries modelled
       here (exponent notation, infinities and NaNs, a sum that the context would round,
       a numeral beyond the conversion limit); nothing is said about such a run\<close>

datatype pyval = Str string | IntV int

type_synonym pydict = "(string \<times> pyval) list"

datatype warning =
    CustomNumber string           \<comment> \<open>line 63: custom channel numbered 500 or above\<close>
  | InvalidDistrict char string   \<comment> \<open>line 100: character at \<open>DN_OFF\<close> of the name is no valid district\<close>
  | ForcedShorten string string   \<comment> \<open>line 187: name shortened from, to\<close>
  | ZoneFull string               \<comment> \<open>lines 226, 232, 236: zone holds more than 80 names\<close>

subsection \<open>String primitives of Python\<close>

definition isspace :: "char \<Rightarrow> bool" where
  "isspace c = (let n = (of_char c :: nat) in
     (9 \<le> n \<and> n \<le> 13) \<or> (28 \<le> n \<and> n \<le> 32) \<or> n = 133 \<or> n = 160)"

definition py_strip :: "string \<Rightarrow> string" where
  "py_strip s = rev (dropWhile isspace (rev (dropWhile isspace s)))"

definition isdigit :: "char \<Rightarrow> bool" where
  "isdigit c = (let n = (of_char c :: nat) in 48 \<le> n \<and> n \<le> 57)"

definition isnumeric_char :: "char \<Rightarrow> bool" where
  "isnumeric_char c = (isdigit c \<or> (of_char c :: nat) \<in> {178, 179, 185, 188, 189, 190})"

definition isnumeric :: "string \<Rightarrow> bool" where
  "isnumeric s = (s \<noteq> [] \<and> list_all isnumeric_char s)"

definition startswith :: "string \<Rightarrow> string \<Rightarrow> bool" where
  "startswith s sub = (take (length sub) s = sub)"

text \<open>\<^verbatim>\<open>s.find(sub)\<close>: the lowest index where \<open>sub\<close> starts, or \<open>-1\<close>.\<close>

fun py_find :: "string \<Rightarrow> string \<Rightarrow> int" where
  "py_find [] sub = (if sub = [] then 0 else -1)"
| "py_find (c # cs) sub =
     (if startswith (c # cs) sub then 0
      else (let i = py_find cs sub in if i < 0 then -1 else i + 1))"

text \<open>\<^verbatim>\<open>s.rfind(sub)\<close>: the highest index where \<open>sub\<close> starts, or \<open>-1\<close>.\<close>

fun py_rfind :: "string \<Rightarrow> string \<Rightarrow> int" where
  "py_rfind [] sub = (if sub = [] then 0 else -1)"
| "py_rfind (c # cs) sub =
     (let i = py_rfind cs sub in
      if 0 \<le> i then i + 1 else if startswith (c # cs) sub then 0 else -1)"

text \<open>\<^verbatim>\<open>sub in s\<close>.\<close>

definition py_in :: "string \<Rightarrow> string \<Rightarrow> bool" where
  "py_in sub s = (0 \<le> py_find s sub)"

text \<open>\<^verbatim>\<open>s[:k]\<close> and \<^verbatim>\<open>s[i:j]\<close> for \<open>0 \<le> i \<le> j\<close>; a negative \<open>k\<close> counts from the end.\<close>

definition slice_to :: "string \<Rightarrow> int \<Rightarrow> string" where
  "slice_to s k = (if k < 0 then take (nat (int (length s) + k)) s else take (nat k) s)"

definition slice :: "string \<Rightarrow> int \<Rightarrow> int \<Rightarrow> string" where
  "slice s i j = take (nat (j - i)) (drop (nat i) s)"

text \<open>\<^verbatim>\<open>s.replace(old, new)\<close> for a non-empty \<open>old\<close>, and \<^verbatim>\<open>s.replace(old, new, 1)\<close>.\<close>

function py_replace :: "string \<Rightarrow> string \<Rightarrow> string \<Rightarrow> string" where
  "py_replace [] old new = []"
| "py_replace (c # cs) old new =
     (if old \<noteq> [] \<and> startswith (c # cs) old
      then new @ py_replace (drop (length old) (c # cs)) old new
      else c # py_replace cs old new)"
  by pat_completeness auto
termination
  by (relation "measure (\<lambda>(s, old, new). length s)") (auto simp: neq_Nil_conv)

fun py_replace1 :: "string \<Rightarrow> string \<Rightarrow> string \<Rightarrow> string" where
  "py_replace1 [] old new = []"
| "py_replace1 (c # cs) old new =
     (if old \<noteq> [] \<and> startswith (c # cs) old
      then new @ drop (length old) (c # cs)
      else c # py_replace1 cs old new)"

subsection \<open>\<^verbatim>\<open>int(str)\<close>\<close>

definition int_space :: "char \<Rightarrow> bool" where
  "int_space c = (let n = (of_char c :: nat) in
     (9 \<le> n \<and> n \<le> 13) \<or> n = 32 \<or> n = 133 \<or> n = 160)"

definition digit_val :: "char \<Rightarrow> nat" where
  "digit_val c = of_char c - 48"

definition digits_val :: "string \<Rightarrow> nat" where
  "digits_val s = foldl (\<lambda>a c. 10 * a + digit_val c) 0 s"

text \<open>Digits with single underscores between them: \<^verbatim>\<open>1_000\<close>, not \<^verbatim>\<open>_1\<close>, \<^verbatim>\<open>1_\<close>, \<^verbatim>\<open>1__0\<close>.\<close>

fun int_body :: "string \<Rightarrow> bool" where
  "int_body [] = False"
| "int_body [c] = isdigit c"
| "int_body (c # d # cs) =
     (isdigit c \<and> (if d = CHR ''_'' then int_body cs else int_body (d # cs)))"

definition py_int :: "string \<Rightarrow> py_error + int" where
  "py_int s =
     (if 4300 < length s then Inl Unmodelled
      else
        let t = rev (dropWhile int_space (rev (dropWhile int_space s)));
            neg = (t \<noteq> [] \<and> hd t = CHR ''-'');
            body = (if t \<noteq> [] \<and> (hd t = CHR ''-'' \<or> hd t = CHR ''+'') then tl t else t)
        in if int_body body
           then Inr ((if neg then -1 else 1) * int (digits_val (filter (\<lambda>c. c \<noteq> CHR ''_'') body)))
           else Inl ValueError)"

subsection \<open>\<^verbatim>\<open>decimal.Decimal\<close>: construction, addition, \<^verbatim>\<open>str\<close>\<close>

text \<open>
  A finite decimal is sign, coefficient and exponent, as in the library. The default
  context applies: precision 28, \<^verbatim>\<open>Emin = -999999\<close>, \<^verbatim>\<open>Emax = 999999\<close>, with
  \<^verbatim>\<open>InvalidOperation\<close> trapped.
\<close>

record decimal =
  negative :: bool
  coeff :: nat
  expo :: int

definition dec_val :: "decimal \<Rightarrow> rat" where
  "dec_val d = (if negative d then -1 else 1) * of_nat (coeff d) *
     (if 0 \<le> expo d then 10 ^ nat (expo d) else 1 / 10 ^ nat (- expo d))"

definition plain_number :: "string \<Rightarrow> bool" where
  "plain_number b =
     (let ip = takeWhile isdigit b; r = dropWhile isdigit b
      in if r = [] then ip \<noteq> []
         else hd r = CHR ''.'' \<and> list_all isdigit (tl r) \<and> (ip \<noteq> [] \<or> tl r \<noteq> []))"

text \<open>
  \<^verbatim>\<open>Decimal(s)\<close>: surrounding whitespace and all underscores are dropped. A string
  of digits, signs and points is a number (optional sign, digits with at most one point)
  or raises \<^verbatim>\<open>InvalidOperation\<close>; a string with any other character (the exponent,
  infinity and NaN forms need one) is outside the model.
\<close>

definition Decimal :: "string \<Rightarrow> py_error + decimal" where
  "Decimal s =
     (let t = filter (\<lambda>c. c \<noteq> CHR ''_'') (py_strip s) in
      if \<not> list_all (\<lambda>c. isdigit c \<or> c = CHR ''.'' \<or> c = CHR ''+'' \<or> c = CHR ''-'') t
      then Inl Unmodelled
      else
        let neg = (t \<noteq> [] \<and> hd t = CHR ''-'');
            b = (if t \<noteq> [] \<and> (hd t = CHR ''-'' \<or> hd t = CHR ''+'') then tl t else t)
        in if plain_number b
           then Inr \<lparr> negative = neg,
                      coeff = digits_val (filter isdigit b),
                      expo = - int (length (tl (dropWhile isdigit b))) \<rparr>
           else Inl InvalidOperation)"

definition digit_char :: "nat \<Rightarrow> char" where
  "digit_char n = ''0123456789'' ! n"

function digits10 :: "nat \<Rightarrow> string" where
  "digits10 n = (if n < 10 then [digit_char n] else digits10 (n div 10) @ [digit_char (n mod 10)])"
  by pat_completeness auto
termination
  by (relation "measure id") auto

declare digits10.simps [simp del]

definition in_context :: "decimal \<Rightarrow> bool" where
  "in_context d =
     (if coeff d = 0 then - 1000026 \<le> expo d \<and> expo d \<le> 999999
      else length (digits10 (coeff d)) \<le> 28 \<and> - 1000026 \<le> expo d
           \<and> expo d + int (length (digits10 (coeff d))) - 1 \<le> 999999)"

text \<open>
  \<^verbatim>\<open>a + b\<close>: the exact sum at the smaller exponent, which is the library's result
  whenever it fits the context unrounded; a zero sum is negative only when both operands
  are.
\<close>

definition dec_add :: "decimal \<Rightarrow> decimal \<Rightarrow> py_error + decimal" where
  "dec_add a b =
     (let e = min (expo a) (expo b);
          va = (if negative a then -1 else 1) * int (coeff a) * 10 ^ nat (expo a - e);
          vb = (if negative b then -1 else 1) * int (coeff b) * 10 ^ nat (expo b - e);
          v = va + vb;
          r = \<lparr> negative = (if v = 0 then negative a \<and> negative b else v < 0),
                coeff = nat \<bar>v\<bar>, expo = e \<rparr>
      in if in_context r then Inr r else Inl Unmodelled)"

definition signed_int_str :: "int \<Rightarrow> string" where
  "signed_int_str i = (if i < 0 then ''-'' else ''+'') @ digits10 (nat \<bar>i\<bar>)"

text \<open>\<^verbatim>\<open>str(d)\<close>: plain notation unless the exponent is positive or the number is below \<open>10\<^sup>-\<^sup>6\<close>.\<close>

definition dec_str :: "decimal \<Rightarrow> string" where
  "dec_str d =
     (let ds = digits10 (coeff d);
          leftdigits = expo d + int (length ds);
          dotplace = (if expo d \<le> 0 \<and> - 6 < leftdigits then leftdigits else 1);
          intpart = (if dotplace \<le> 0 then ''0''
                     else if int (length ds) \<le> dotplace
                       then ds @ replicate (nat (dotplace - int (length ds))) (CHR ''0'')
                     else take (nat dotplace) ds);
          fracpart = (if dotplace \<le> 0 then ''.'' @ replicate (nat (- dotplace)) (CHR ''0'') @ ds
                      else if int (length ds) \<le> dotplace then ''''
                      else ''.'' @ drop (nat dotplace) ds);
          ex = (if leftdigits = dotplace then '''' else ''E'' @ signed_int_str (leftdigits - dotplace))
      in (if negative d then ''-'' else '''') @ intpart @ fracpart @ ex)"

subsection \<open>Input records and configuration\<close>

text \<open>One row of \<^verbatim>\<open>repeaters.csv\<close> as \<^verbatim>\<open>csv.DictReader\<close> yields it; every column is present.\<close>

record row =
  district :: string
  type :: string
  status :: string
  mode :: string
  band :: string
  call :: string
  city :: string
  "output" :: string
  tx_shift :: string
  access :: string
  network :: string
  lat :: string
  lng :: string

text \<open>The parsed arguments: \<^verbatim>\<open>--allskip\<close> (a list, or \<^verbatim>\<open>None\<close>) and \<^verbatim>\<open>--home\<close>.\<close>

record args =
  allskip :: "int list option"
  home :: "int option"

definition DN_OFF :: nat where
  "DN_OFF = 2"

definition valid_districts :: "int list" where
  "valid_districts = [0, 1, 2, 3, 4, 5, 6, 7]"

subsection \<open>Record filter (lines 73 and 76)\<close>

definition accepted :: "row \<Rightarrow> bool" where
  "accepted r =
     ((length (district r) = 1 \<and> py_in ''Repeater'' (type r) \<and> py_in ''QRV'' (status r))
      \<and> ((py_in ''DMR'' (mode r) \<or> py_in ''FM'' (mode r)) \<and> (band r = ''2'' \<or> band r = ''70'')))"

subsection \<open>Channel deriver (lines 77 to 153)\<close>

definition fix_callsign :: "string \<Rightarrow> string" where
  "fix_callsign c =
     (let c0 = py_replace c [CHR 0xD8] ''0'';
          c1 = (if py_in ''/'' c0 then slice_to c0 (py_find c0 ''/'') else c0)
      in if py_in ''-'' c1 then slice_to c1 (py_find c1 ''-'') else c1)"

definition fix_city :: "string \<Rightarrow> string" where
  "fix_city c =
     (let c0 = py_strip c;
          c1 = (if py_in '' /'' c0 then slice_to c0 (py_find c0 '' /'') else c0)
      in py_replace c1 ''Upplands '' ''U.'')"

definition proposed_name :: "row \<Rightarrow> string" where
  "proposed_name r =
     (let b = (if py_in ''2'' (band r) then ''2m'' else ''70cm'')
      in py_strip (take 16 (fix_callsign (call r) @ '' '' @ fix_city (city r) @ '' '' @ b)))"

text \<open>\<^verbatim>\<open>re.compile('([0-9]+\.[0-9])').search(s)\<close>: the leftmost match, digits taken greedily.\<close>

definition tone_match_here :: "string \<Rightarrow> string option" where
  "tone_match_here s =
     (let ds = takeWhile isdigit s
      in if ds = [] then None
         else (case dropWhile isdigit s of
                 p # q # _ \<Rightarrow> if p = CHR ''.'' \<and> isdigit q then Some (ds @ [p, q]) else None
               | _ \<Rightarrow> None))"

fun tone_search :: "string \<Rightarrow> string option" where
  "tone_search [] = None"
| "tone_search (c # cs) =
     (case tone_match_here (c # cs) of Some m \<Rightarrow> Some m | None \<Rightarrow> tone_search cs)"

text \<open>Lines 98 to 100: the district character of the name, checked but not used.\<close>

definition check_name_district :: "string \<Rightarrow> py_error + warning list" where
  "check_name_district nm =
     (if length nm \<le> DN_OFF then Inl IndexError
      else
        let d = nm ! DN_OFF
        in if \<not> isnumeric [d] then Inr [InvalidDistrict d nm]
           else (case py_int [d] of
                   Inl e \<Rightarrow> Inl e
                 | Inr i \<Rightarrow> if i \<notin> set valid_districts then Inr [InvalidDistrict d nm] else Inr []))"

text \<open>Lines 107 to 109: the text of \<^verbatim>\<open>Tx Frequency\<close>.\<close>

definition tx_frequency :: "row \<Rightarrow> py_error + string" where
  "tx_frequency r =
     (case (if isnumeric (py_replace (py_replace (tx_shift r) ''.'' []) ''-'' [])
            then Decimal (tx_shift r)
            else Inr \<lparr> negative = False, coeff = 0, expo = 0 \<rparr>) of
        Inl e \<Rightarrow> Inl e
      | Inr offset \<Rightarrow>
          (case Decimal (output r) of
             Inl e \<Rightarrow> Inl e
           | Inr f \<Rightarrow> (case dec_add f offset of Inl e \<Rightarrow> Inl e | Inr t \<Rightarrow> Inr (dec_str t))))"

definition digital_fields :: "row \<Rightarrow> pydict \<Rightarrow> pydict" where
  "digital_fields r ch =
     (let cc_idx = py_find (access r) ''CC''
      in if cc_idx \<noteq> -1
         then
           let net = (if \<not> py_in ''BM'' (network r) then network r else ''Brandmeister'')
           in AList.update ''TS2_TA_Tx ID'' (Str ''Off'')
             (AList.update ''TS1_TA_Tx'' (Str ''Off'')
             (AList.update ''DMR ID'' (Str ''None'')
             (AList.update ''TG List'' (Str (if \<not> py_in ''Brandmeister'' net then net else ''Brandmeister''))
             (AList.update ''Timeslot'' (IntV 1)
             (AList.update ''Colour Code'' (Str (slice (access r) (cc_idx + 3) (cc_idx + 5))) ch)))))
         else ch)"

definition analogue_fields :: "row \<Rightarrow> pydict \<Rightarrow> pydict" where
  "analogue_fields r ch =
     (let tone = (case tone_search (access r) of None \<Rightarrow> [] | Some m \<Rightarrow> m)
      in AList.update ''Squelch'' (Str ''Disabled'')
        (AList.update ''TX Tone'' (Str tone)
        (AList.update ''RX Tone'' (Str tone)
        (AList.update ''Bandwidth (kHz)'' (Str ''12.5'') ch))))"

definition all_skip :: "args \<Rightarrow> int \<Rightarrow> bool" where
  "all_skip a d =
     ((home a \<noteq> None \<and> Some d \<noteq> home a)
      \<or> (case allskip a of None \<Rightarrow> False | Some l \<Rightarrow> l \<noteq> [] \<and> d \<in> set l))"

definition shared_fields :: "args \<Rightarrow> row \<Rightarrow> int \<Rightarrow> pydict \<Rightarrow> pydict" where
  "shared_fields a r d ch =
     AList.update ''Longitude'' (Str (py_replace (lng r) ''.'' '',''))
    (AList.update ''Latitude'' (Str (py_replace (lat r) ''.'' '',''))
    (AList.update ''APRS'' (Str ''None'')
    (AList.update ''No Eco'' (Str ''No'')
    (AList.update ''No Beep'' (Str ''No'')
    (AList.update ''VOX'' (Str ''Off'')
    (AList.update ''TOT'' (Str ''0'')
    (AList.update ''All Skip'' (Str (if all_skip a d then ''Yes'' else ''No''))
    (AList.update ''Zone Skip'' (Str ''No'')
    (AList.update ''Rx Only'' (Str ''No'')
    (AList.update ''Power'' (Str ''Master'') ch))))))))))"

text \<open>
  The body of the loop from line 77 to line 153 for one accepted row: the warnings
  printed, the proposed name and the channel, or the exception that ends the run.
\<close>

definition derive :: "args \<Rightarrow> row \<Rightarrow> py_error + (warning list \<times> string \<times> pydict)" where
  "derive a r =
     (let nm = proposed_name r
      in case check_name_district nm of
           Inl e \<Rightarrow> Inl e
         | Inr ws \<Rightarrow>
             (case py_int (district r) of
                Inl e \<Rightarrow> Inl e
              | Inr d \<Rightarrow>
                  let ctype = (if py_in ''DMR'' (mode r) then ''Digital'' else ''Analogue'');
                      ch1 = AList.update ''Rx Frequency'' (Str (output r))
                              (AList.update ''Channel Type'' (Str ctype) [])
                  in (case tx_frequency r of
                        Inl e \<Rightarrow> Inl e
                      | Inr tx \<Rightarrow>
                          let ch2 = AList.update ''Tx Frequency'' (Str tx) ch1;
                              ch3 = (if ctype = ''Digital'' then digital_fields r ch2
                                     else analogue_fields r ch2)
                          in Inr (ws, nm, shared_fields a r d ch3))))"

subsection \<open>Name disambiguation (lines 156 to 188)\<close>

definition mode_tag :: "pydict \<Rightarrow> string" where
  "mode_tag ch = (if map_of ch ''Channel Type'' = Some (Str ''Digital'') then ''DMR'' else ''FM'')"

text \<open>One pass through the body of the \<^verbatim>\<open>while\<close> loop: the new name and what is printed.\<close>

definition rewrite_name :: "string \<Rightarrow> string \<Rightarrow> string \<times> warning list" where
  "rewrite_name m nm =
     (if py_in '' 7'' nm \<or> py_in '' 2'' (drop 10 nm) then (slice_to nm (py_rfind nm '' ''), [])
      else if length nm < 15 then (take 16 (nm @ '' '' @ m), [])
      else if length nm < 16 then (if m = ''FM'' then nm @ ''A'' else nm @ ''D'', [])
      else if py_in '' '' nm then (py_replace1 nm '' '' ''_'', [])
      else if py_in ''_'' nm then (py_replace1 nm ''_'' ''.'', [])
      else if py_in ''.'' nm then (py_replace1 nm ''.'' ''-'', [])
      else if py_in ''-'' nm then (py_replace1 nm ''-'' ''/'', [])
      else (py_strip (slice_to nm (-2)), [ForcedShorten nm (py_strip (slice_to nm (-2)))]))"

text \<open>
  The loop \<^verbatim>\<open>while name in channels\<close>; \<open>taken\<close> is the keys of \<^verbatim>\<open>channels\<close>. The loop
  has no bound in the source, so a run that never leaves it is \<open>None\<close>.
\<close>

partial_function (option) disambiguate ::
  "string list \<Rightarrow> string \<Rightarrow> string \<Rightarrow> warning list \<Rightarrow> (string \<times> warning list) option" where
  "disambiguate taken m nm ws =
     (if nm \<in> set taken
      then disambiguate taken m (fst (rewrite_name m nm)) (ws @ snd (rewrite_name m nm))
      else Some (nm, ws))"

declare disambiguate.simps [code]

subsection \<open>Reading the repeater file (lines 68 to 191)\<close>

type_synonym registry = "(string \<times> pydict) list"

fun process_rows ::
  "args \<Rightarrow> row list \<Rightarrow> registry \<Rightarrow> warning list \<Rightarrow> (py_error + registry \<times> warning list) option" where
  "process_rows a [] channels ws = Some (Inr (channels, ws))"
| "process_rows a (r # rs) channels ws =
     (if accepted r
      then (case derive a r of
              Inl e \<Rightarrow> Some (Inl e)
            | Inr (w1, nm, channel) \<Rightarrow>
                (case disambiguate (map fst channels) (mode_tag channel) nm [] of
                   None \<Rightarrow> None
                 | Some (nm', w2) \<Rightarrow>
                     process_rows a rs (AList.update nm' channel channels) (ws @ w1 @ w2)))
      else process_rows a rs channels ws)"

subsection \<open>Sorted emission (lines 194 to 201)\<close>

text \<open>The sort key of line 195; \<^verbatim>\<open>Decimal\<close> values compare by their numeric value.\<close>

definition channel_key :: "string \<times> pydict \<Rightarrow> py_error + (string \<times> char \<times> rat)" where
  "channel_key c =
     (case map_of (snd c) ''Channel Type'' of
        None \<Rightarrow> Inl KeyError
      | Some (IntV _) \<Rightarrow> Inl Unmodelled
      | Some (Str t) \<Rightarrow>
          if length (fst c) \<le> DN_OFF then Inl IndexError
          else (case map_of (snd c) ''Rx Frequency'' of
                  None \<Rightarrow> Inl KeyError
                | Some (IntV _) \<Rightarrow> Inl Unmodelled
                | Some (Str rx) \<Rightarrow>
                    (case Decimal rx of
                       Inl e \<Rightarrow> Inl e
                     | Inr d \<Rightarrow> Inr (t, fst c ! DN_OFF, dec_val d))))"

text \<open>\<^verbatim>\<open>sorted\<close> computes every key first, in order, then sorts stably.\<close>

fun keyed :: "registry \<Rightarrow> py_error + ((string \<times> char \<times> rat) \<times> (string \<times> pydict)) list" where
  "keyed [] = Inr []"
| "keyed (c # cs) =
     (case channel_key c of
        Inl e \<Rightarrow> Inl e
      | Inr k \<Rightarrow> (case keyed cs of Inl e \<Rightarrow> Inl e | Inr ks \<Rightarrow> Inr ((k, c) # ks)))"

definition sorted_channels :: "registry \<Rightarrow> py_error + registry" where
  "sorted_channels channels =
     (case keyed channels of Inl e \<Rightarrow> Inl e | Inr ks \<Rightarrow> Inr (map snd (sort_key fst ks)))"

fun number_rows :: "int \<Rightarrow> registry \<Rightarrow> pydict list" where
  "number_rows i [] = []"
| "number_rows i (c # cs) =
     AList.update ''Channel Name'' (Str (fst c))
       (AList.update ''Channel Number'' (IntV (i + 1)) (snd c)) # number_rows (i + 1) cs"

subsection \<open>Custom channels (lines 58 to 65)\<close>

definition fieldnames :: "string list" where
  "fieldnames = [''Channel Number'', ''Channel Name'', ''Channel Type'', ''Rx Frequency'',
     ''Tx Frequency'', ''Bandwidth (kHz)'', ''Colour Code'', ''Timeslot'', ''Contact'',
     ''TG List'', ''DMR ID'', ''TS1_TA_Tx'', ''TS2_TA_Tx ID'', ''RX Tone'', ''TX Tone'',
     ''Squelch'', ''Power'', ''Rx Only'', ''Zone Skip'', ''All Skip'', ''TOT'', ''VOX'',
     ''No Beep'', ''No Eco'', ''APRS'', ''Latitude'', ''Longitude'']"

text \<open>
  A row of the custom file as \<^verbatim>\<open>csv.DictReader\<close> yields it: text by field name. A field
  the line is too short for reads as \<^verbatim>\<open>None\<close>, which \<^verbatim>\<open>int\<close> and the slice refuse;
  \<^verbatim>\<open>csv.DictWriter\<close> refuses a key that is no field name.
\<close>

type_synonym custom_row = "(string \<times> string) list"

definition ingest_row :: "custom_row \<Rightarrow> py_error + (warning list \<times> pydict)" where
  "ingest_row cr =
     (case map_of cr ''Channel Number'' of
        None \<Rightarrow> Inl TypeError
      | Some n \<Rightarrow>
          (case py_int n of
             Inl e \<Rightarrow> Inl e
           | Inr i \<Rightarrow>
               (case map_of cr ''Channel Name'' of
                  None \<Rightarrow> Inl TypeError
                | Some nm \<Rightarrow>
                    if \<not> list_all (\<lambda>k. k \<in> set fieldnames) (map fst cr) then Inl ValueError
                    else Inr (if 499 < i then [CustomNumber nm] else [],
                              AList.update ''Channel Name'' (Str (py_strip (take 16 nm)))
                                (map (\<lambda>kv. (fst kv, Str (snd kv))) cr)))))"

text \<open>The rows written and the warnings printed, and the exception if a row raised one.\<close>

fun ingest_custom :: "custom_row list \<Rightarrow> pydict list \<times> warning list \<times> py_error option" where
  "ingest_custom [] = ([], [], None)"
| "ingest_custom (cr # crs) =
     (case ingest_row cr of
        Inl e \<Rightarrow> ([], [], Some e)
      | Inr (w, rw) \<Rightarrow>
          (case ingest_custom crs of (rws, ws, err) \<Rightarrow> (rw # rws, w @ ws, err)))"

subsection \<open>Argument validation (lines 30 to 41)\<close>

text \<open>Whether the script calls \<^verbatim>\<open>sys.exit\<close>. A list and an integer are tested for truth as
  Python does: an empty list and the number \<open>0\<close> count as false.\<close>

definition args_rejected :: "args \<Rightarrow> bool" where
  "args_rejected a =
     ((case allskip a of
         None \<Rightarrow> False
       | Some l \<Rightarrow> l \<noteq> [] \<and> ((\<exists>skip \<in> set l. skip \<notin> set valid_districts)
                          \<or> (case home a of None \<Rightarrow> False | Some h \<Rightarrow> h \<noteq> 0)))
      \<or> (case home a of None \<Rightarrow> False | Some h \<Rightarrow> h \<noteq> 0 \<and> h \<notin> set valid_districts))"

subsection \<open>Zone bucketer (lines 204 to 236)\<close>

definition int_str :: "int \<Rightarrow> string" where
  "int_str i = (if i < 0 then ''-'' else []) @ digits10 (nat \<bar>i\<bar>)"

text \<open>A field of a row read back from \<^verbatim>\<open>Channels.csv\<close>: the text that was written, empty
  for a key the row did not have.\<close>

definition field :: "pydict \<Rightarrow> string \<Rightarrow> string" where
  "field rw k = (case map_of rw k of None \<Rightarrow> [] | Some (Str s) \<Rightarrow> s | Some (IntV i) \<Rightarrow> int_str i)"

type_synonym zones = "(string \<times> string list) list"

definition empty_zones :: zones where
  "empty_zones =
     [(''All 2m DMR'', []), (''All 70cm DMR'', [])] @
     concat (map (\<lambda>d. [(''SM'' @ int_str d @ '' All Channels'', []),
                         (''SM'' @ int_str d @ '' Analogue'', []),
                         (''SM'' @ int_str d @ '' DMR'', [])]) valid_districts)"

text \<open>\<^verbatim>\<open>zones[k].append(nm)\<close>, which raises \<^verbatim>\<open>KeyError\<close> for a zone that was not created.\<close>

definition zone_append :: "zones \<Rightarrow> string \<Rightarrow> string \<Rightarrow> py_error + zones" where
  "zone_append zs k nm =
     (case map_of zs k of None \<Rightarrow> Inl KeyError | Some l \<Rightarrow> Inr (AList.update k (l @ [nm]) zs))"

definition zone_full :: "zones \<Rightarrow> string \<Rightarrow> warning list" where
  "zone_full zs k = (case map_of zs k of None \<Rightarrow> [] | Some l \<Rightarrow> if 80 < length l then [ZoneFull k] else [])"

definition bucket_dmr :: "zones \<Rightarrow> string \<Rightarrow> string \<Rightarrow> py_error + zones \<times> warning list" where
  "bucket_dmr zs rx nm =
     (if rx = [] then Inl IndexError
      else
        (case (if hd rx = CHR ''1'' then zone_append zs ''All 2m DMR'' nm else Inr zs) of
           Inl e \<Rightarrow> Inl e
         | Inr zs1 \<Rightarrow>
             (case (if hd rx = CHR ''4'' then zone_append zs1 ''All 70cm DMR'' nm else Inr zs1) of
                Inl e \<Rightarrow> Inl e
              | Inr zs2 \<Rightarrow>
                  Inr (zs2, (if hd rx = CHR ''1'' then zone_full zs1 ''All 2m DMR'' else []) @
                            (if hd rx = CHR ''4'' then zone_full zs2 ''All 70cm DMR'' else [])))))"

definition bucket_row :: "zones \<Rightarrow> pydict \<Rightarrow> py_error + zones \<times> warning list" where
  "bucket_row zs rw =
     (let nm = py_strip (field rw ''Channel Name'')
      in if length nm \<le> DN_OFF then Inl IndexError
         else
           let d = nm ! DN_OFF;
               m = (if py_in ''Digital'' (field rw ''Channel Type'') then ''DMR'' else ''Analogue'')
           in if isnumeric [d]
              then (case zone_append zs (''SM'' @ [d] @ '' '' @ m) nm of
                      Inl e \<Rightarrow> Inl e
                    | Inr zs1 \<Rightarrow>
                        (case zone_append zs1 (''SM'' @ [d] @ '' All Channels'') nm of
                           Inl e \<Rightarrow> Inl e
                         | Inr zs2 \<Rightarrow>
                             if m = ''DMR''
                             then (case bucket_dmr zs2 (field rw ''Rx Frequency'') nm of
                                     Inl e \<Rightarrow> Inl e
                                   | Inr (zs3, w) \<Rightarrow>
                                       Inr (zs3, zone_full zs2 (''SM'' @ [d] @ '' All Channels'') @ w))
                             else Inr (zs2, zone_full zs2 (''SM'' @ [d] @ '' All Channels''))))
              else Inr (zs, []))"

fun bucket_rows :: "zones \<Rightarrow> pydict list \<Rightarrow> py_error + zones \<times> warning list" where
  "bucket_rows zs [] = Inr (zs, [])"
| "bucket_rows zs (rw # rws) =
     (case bucket_row zs rw of
        Inl e \<Rightarrow> Inl e
      | Inr (zs1, w1) \<Rightarrow>
          (case bucket_rows zs1 rws of Inl e \<Rightarrow> Inl e | Inr (zs2, w2) \<Rightarrow> Inr (zs2, w1 @ w2)))"

subsection \<open>Zone writer (lines 239 to 257)\<close>

fun join :: "string \<Rightarrow> string list \<Rightarrow> string" where
  "join sep [] = []"
| "join sep [x] = x"
| "join sep (x # y # ys) = x @ sep @ join sep (y # ys)"

definition CRLF :: string where
  "CRLF = [CHR 0x0D, CHR 0x0A]"

text \<open>Lines 254 to 257 for one zone with members; Python's \<^verbatim>\<open>';' * n\<close> is empty for a
  negative \<open>n\<close>, as the truncated subtraction makes it here.\<close>

definition zone_line :: "string \<Rightarrow> string list \<Rightarrow> string" where
  "zone_line nm members =
     (let data = nm # members
      in join '';'' data @ replicate (81 - length data) (CHR '';'') @ CRLF)"

definition zones_header :: string where
  "zones_header =
     join '';'' (''Zone Name'' # map (\<lambda>n. ''Channel'' @ int_str (int n)) [1..<81]) @ CRLF"

definition zones_csv_text :: "zones \<Rightarrow> string" where
  "zones_csv_text zs =
     zones_header @ concat (map (\<lambda>z. if 0 < length (snd z) then zone_line (fst z) (snd z) else []) zs)"

subsection \<open>The whole script\<close>

text \<open>
  The two output files: the rows of \<^verbatim>\<open>Channels.csv\<close> below its header line and the text of
  \<^verbatim>\<open>Zones.csv\<close>; \<open>None\<close> is a file the run has not opened. The rows of
  \<^verbatim>\<open>Channels.csv\<close> are read back field by field as they were written.
\<close>

record files =
  channels_csv :: "pydict list option"
  zones_csv :: "string option"

datatype outcome = Finished | Exited | Raised py_error | Hangs

definition main ::
  "args \<Rightarrow> custom_row list \<Rightarrow> row list \<Rightarrow> files \<Rightarrow> outcome \<times> files \<times> warning list" where
  "main a custom rpt fs =
     (if args_rejected a then (Exited, fs, [])
      else
        (case ingest_custom custom of
           (crows, w0, Some e) \<Rightarrow> (Raised e, fs\<lparr>channels_csv := Some crows\<rparr>, w0)
         | (crows, w0, None) \<Rightarrow>
             (case process_rows a rpt [] [] of
                None \<Rightarrow> (Hangs, fs\<lparr>channels_csv := Some crows\<rparr>, w0)
              | Some (Inl e) \<Rightarrow> (Raised e, fs\<lparr>channels_csv := Some crows\<rparr>, w0)
              | Some (Inr (channels, w1)) \<Rightarrow>
                  (case sorted_channels channels of
                     Inl e \<Rightarrow> (Raised e, fs\<lparr>channels_csv := Some crows\<rparr>, w0 @ w1)
                   | Inr cs \<Rightarrow>
                       let emitted = crows @ number_rows 500 cs;
                           fs1 = fs\<lparr>channels_csv := Some emitted\<rparr>
                       in (case bucket_rows empty_zones emitted of
                             Inl e \<Rightarrow> (Raised e, fs1, w0 @ w1)
                           | Inr (zs, w2) \<Rightarrow>
                               (Finished, fs1\<lparr>zones_csv := Some (zones_csv_text zs)\<rparr>,
                                w0 @ w1 @ w2))))))"

text \<open>The record of the scenario; the columns the scenario leaves open are parameters.\<close>

definition scenario_row :: "string \<Rightarrow> string \<Rightarrow> string \<Rightarrow> row" where
  "scenario_row n la lo =
     \<lparr>district = ''3'', type = ''Repeater'', status = ''QRV'', mode = ''FM'', band = ''2'',
      call = [CHR ''S'', CHR ''K'', CHR ''3'', CHR 0xD8, CHR ''A''], city = ''Uppland /X'',
      output = ''145.600'', tx_shift = ''-0.600'', access = ''67.0'',
      network = n, lat = la, lng = lo\<rparr>"

text \<open>The keys of \<^verbatim>\<open>channels\<close> after twelve identical FM records with call \<^verbatim>\<open>SK0AB\<close>, city
  \<^verbatim>\<open>Stockholm\<close> and band \<^verbatim>\<open>2\<close>, in the order the loop produced them.\<close>

definition stockholm_names :: "string list" where
  "stockholm_names =
     [''SK0AB Stockholm'', ''SK0AB StockholmA'', ''SK0AB_StockholmA'', ''SK0AB.StockholmA'',
      ''SK0AB-StockholmA'', ''SK0AB/StockholmA'', ''SK0AB/Stockhol'', ''SK0AB/Stockhol F'',
      ''SK0AB/Stockhol_F'', ''SK0AB/Stockhol.F'', ''SK0AB/Stockhol-F'', ''SK0AB/Stockhol/F'']"

text \<open>The fields of a line, as \<^verbatim>\<open>line.split(';')\<close> reads them: the text between separators.\<close>

fun split_on :: "char \<Rightarrow> string \<Rightarrow> string list" where
  "split_on c [] = [[]]"
| "split_on c (x # xs) =
     (if x = c then [] # split_on c xs
      else (case split_on c xs of [] \<Rightarrow> [[x]] | f # fs \<Rightarrow> (x # f) # fs))"

text \<open>Eighty-one distinct member names of one zone.\<close>

definition members81 :: "string list" where
  "members81 = map (\<lambda>n. ''SK0A'' @ int_str (int n)) [0..<81]"

text \<open>Test data: a custom channel that carries the name the scenario record is given, and a
  DMR repeater of district 0.\<close>

definition custom_uppland :: custom_row where
  "custom_uppland = [(''Channel Number'', ''12''), (''Channel Name'', ''SK30A Uppland 2m''),
     (''Channel Type'', ''Analogue''), (''Rx Frequency'', ''145.60000'')]"

definition dmr_row :: row where
  "dmr_row =
     \<lparr>district = ''0'', type = ''Repeater'', status = ''QRV'', mode = ''DMR'', band = ''70'',
      call = ''SK0RMT'', city = ''Tyresta'', output = ''434.5625'', tx_shift = ''-2'',
      access = ''CC 1'', network = ''BM'', lat = ''59.2'', lng = ''18.3''\<rparr>"

definition no_args :: args where
  "no_args = \<lparr>allskip = None, home = None\<rparr>"

definition no_files :: files where
  "no_files = \<lparr>channels_csv = None, zones_csv = None\<rparr>"

definition uppland_channel :: pydict where
  "uppland_channel =
     [(''Channel Type'', Str ''Analogue''), (''Rx Frequency'', Str ''145.600''),
      (''Tx Frequency'', Str ''145.000''), (''Bandwidth (kHz)'', Str ''12.5''),
      (''RX Tone'', Str ''67.0''), (''TX Tone'', Str ''67.0''), (''Squelch'', Str ''Disabled''),
      (''Power'', Str ''Master''), (''Rx Only'', Str ''No''), (''Zone Skip'', Str ''No''),
      (''All Skip'', Str ''No''), (''TOT'', Str ''0''), (''VOX'', Str ''Off''),
      (''No Beep'', Str ''No''), (''No Eco'', Str ''No''), (''APRS'', Str ''None''),
      (''Latitude'', Str []), (''Longitude'', Str [])]"

definition tyresta_channel :: pydict where
  "tyresta_channel =
     [(''Channel Type'', Str ''Digital''), (''Rx Frequency'', Str ''434.5625''),
      (''Tx Frequency'', Str ''432.5625''), (''Colour Code'', Str ''1''), (''Timeslot'', IntV 1),
      (''TG List'', Str ''Brandmeister''), (''DMR ID'', Str ''None''), (''TS1_TA_Tx'', Str ''Off''),
      (''TS2_TA_Tx ID'', Str ''Off''), (''Power'', Str ''Master''), (''Rx Only'', Str ''No''),
      (''Zone Skip'', Str ''No''), (''All Skip'', Str ''No''), (''TOT'', Str ''0''),
      (''VOX'', Str ''Off''), (''No Beep'', Str ''No''), (''No Eco'', Str ''No''),
      (''APRS'', Str ''None''), (''Latitude'', Str ''59,2''), (''Longitude'', Str ''18,3'')]"

text \<open>The rows of \<^verbatim>\<open>Channels.csv\<close> for the custom channel and the two repeaters.\<close>

definition example_rows :: "pydict list" where
  "example_rows =
     [[(''Channel Number'', Str ''12''), (''Channel Name'', Str ''SK30A Uppland 2m''),
       (''Channel Type'', Str ''Analogue''), (''Rx Frequency'', Str ''145.60000'')],
      uppland_channel @ [(''Channel Number'', IntV 501), (''Channel Name'', Str ''SK30A Uppland 2m'')],
      tyresta_channel @ [(''Channel Number'', IntV 502), (''Channel Name'', Str ''SK0RMT Tyresta 7'')]]"

text \<open>
  Zone membership as the specification words it. \<open>zone_has zs k n\<close>: zone \<open>k\<close> of \<open>zs\<close>
  holds the name \<open>n\<close>. \<open>row_zones rw\<close>: the zones a row of the channel list belongs to, by
  the character at offset 2 of its name, its Channel Type and the first character of its
  Rx Frequency.
\<close>

definition zone_has :: "zones \<Rightarrow> string \<Rightarrow> string \<Rightarrow> bool" where
  "zone_has zs k n = (case map_of zs k of None \<Rightarrow> False | Some l \<Rightarrow> n \<in> set l)"

definition row_name :: "pydict \<Rightarrow> string" where
  "row_name rw = py_strip (field rw ''Channel Name'')"

definition row_zones :: "pydict \<Rightarrow> string list" where
  "row_zones rw =
     (let d = row_name rw ! DN_OFF;
          digital = py_in ''Digital'' (field rw ''Channel Type'');
          rx = field rw ''Rx Frequency''
      in if isnumeric [d]
         then [''SM'' @ [d] @ '' '' @ (if digital then ''DMR'' else ''Analogue''),
               ''SM'' @ [d] @ '' All Channels'']
              @ (if digital \<and> rx \<noteq> [] \<and> hd rx = CHR ''1'' then [''All 2m DMR''] else [])
              @ (if digital \<and> rx \<noteq> [] \<and> hd rx = CHR ''4'' then [''All 70cm DMR''] else [])
         else [])"

text \<open>A row as the scenario record would give it with call \<^verbatim>\<open>SK8XX\<close>.\<close>

definition district8_row :: pydict where
  "district8_row =
     [(''Channel Type'', Str ''Analogue''), (''Rx Frequency'', Str ''145.600''),
      (''Channel Number'', IntV 501), (''Channel Name'', Str ''SK8XX Uppland 2m'')]"

text \<open>Three FM repeaters that differ from the scenario record in call, city or output, and
  the channel the deriver gives each.\<close>

definition fm_row :: "string \<Rightarrow> string \<Rightarrow> string \<Rightarrow> row" where
  "fm_row cl ct out = (scenario_row [] [] [])\<lparr>call := cl, city := ct, output := out\<rparr>"

definition fm_channel :: "string \<Rightarrow> string \<Rightarrow> pydict" where
  "fm_channel rx tx =
     [(''Channel Type'', Str ''Analogue''), (''Rx Frequency'', Str rx),
      (''Tx Frequency'', Str tx), (''Bandwidth (kHz)'', Str ''12.5''),
      (''RX Tone'', Str ''67.0''), (''TX Tone'', Str ''67.0''), (''Squelch'', Str ''Disabled''),
      (''Power'', Str ''Master''), (''Rx Only'', Str ''No''), (''Zone Skip'', Str ''No''),
      (''All Skip'', Str ''No''), (''TOT'', Str ''0''), (''VOX'', Str ''Off''),
      (''No Beep'', Str ''No''), (''No Eco'', Str ''No''), (''APRS'', Str ''None''),
      (''Latitude'', Str []), (''Longitude'', Str [])]"

definition three_rows :: "row list" where
  "three_rows = [fm_row ''SK3AB'' ''Uppsala'' ''145.7'', fm_row ''SK0XY'' ''Uppsala'' ''145.7'',
                 fm_row ''SK3AB'' ''Tierp'' ''145.65'']"

definition three_registered :: registry where
  "three_registered =
     [(''SK3AB Uppsala 2m'', fm_channel ''145.7'' ''145.100''),
      (''SK0XY Uppsala 2m'', fm_channel ''145.7'' ''145.100''),
      (''SK3AB Tierp 2m'', fm_channel ''145.65'' ''145.050'')]"

definition three_sorted :: registry where
  "three_sorted =
     [(''SK0XY Uppsala 2m'', fm_channel ''145.7'' ''145.100''),
      (''SK3AB Tierp 2m'', fm_channel ''145.65'' ''145.050''),
      (''SK3AB Uppsala 2m'', fm_channel ''145.7'' ''145.100'')]"




section \<open>Evaluation lemmas\<close>

lemma digits10_small: "n < 10 \<Longrightarrow> digits10 n = [digit_char n]"
  by (simp add: digits10.simps[of n])

lemma digits10_large: "10 \<le> n \<Longrightarrow> digits10 n = digits10 (n div 10) @ [digit_char (n mod 10)]"
  by (simp add: digits10.simps[of n])

lemma disambiguate_free: "nm \<notin> set taken \<Longrightarrow> disambiguate taken m nm ws = Some (nm, ws)"
  by (simp add: disambiguate.simps[of taken m nm ws])


lemmas str_defs = py_strip_def isspace_def isdigit_def isnumeric_def isnumeric_char_def
  startswith_def py_in_def slice_to_def slice_def

lemmas dec_defs = Decimal_def plain_number_def digits_val_def digit_val_def dec_add_def
  in_context_def dec_str_def signed_int_str_def digits10_small digits10_large digit_char_def

lemmas derive_defs = derive_def proposed_name_def fix_callsign_def fix_city_def
  check_name_district_def DN_OFF_def valid_districts_def py_int_def int_space_def
  tx_frequency_def analogue_fields_def digital_fields_def shared_fields_def tone_match_here_def

section \<open>The deriver on the scenario record\<close>

lemma derive_scenario:
  "derive a (scenario_row n la lo) =
     Inr ([], ''SK30A Uppland 2m'',
       [(''Channel Type'', Str ''Analogue''), (''Rx Frequency'', Str ''145.600''),
        (''Tx Frequency'', Str ''145.000''), (''Bandwidth (kHz)'', Str ''12.5''),
        (''RX Tone'', Str ''67.0''), (''TX Tone'', Str ''67.0''),
        (''Squelch'', Str ''Disabled''), (''Power'', Str ''Master''),
        (''Rx Only'', Str ''No''), (''Zone Skip'', Str ''No''),
        (''All Skip'', Str (if all_skip a 3 then ''Yes'' else ''No'')),
        (''TOT'', Str ''0''), (''VOX'', Str ''Off''), (''No Beep'', Str ''No''),
        (''No Eco'', Str ''No''), (''APRS'', Str ''None''),
        (''Latitude'', Str (py_replace la ''.'' '','')),
        (''Longitude'', Str (py_replace lo ''.'' '',''))])"
  by (simp add: scenario_row_def derive_defs str_defs dec_defs Let_def)

lemma accepted_scenario: "accepted (scenario_row n la lo)"
  by (simp add: scenario_row_def accepted_def str_defs)

text \<open>
  Claim C9. The record with district 3, type Repeater, status QRV, mode FM, band 2, call
  SK3\<open>\<Oslash>\<close>A, city "Uppland /X", output 145.600, tx_shift -0.600 and access 67.0 passes
  the filter, and under every configuration and whatever its remaining columns hold the
  deriver returns, with no warning, the name "SK30A Uppland 2m" and an Analogue channel
  with Rx Frequency 145.600, Tx Frequency 145.000, RX Tone and TX Tone 67.0 and Bandwidth
  12.5; as the only record of a run it is registered under that name.
\<close>

theorem scenario_channel:
  "accepted (scenario_row n la lo) \<and>
   (\<exists>ch. derive a (scenario_row n la lo) = Inr ([], ''SK30A Uppland 2m'', ch)
      \<and> process_rows a [scenario_row n la lo] [] [] = Some (Inr ([(''SK30A Uppland 2m'', ch)], []))
      \<and> map_of ch ''Channel Type'' = Some (Str ''Analogue'')
      \<and> map_of ch ''Rx Frequency'' = Some (Str ''145.600'')
      \<and> map_of ch ''Tx Frequency'' = Some (Str ''145.000'')
      \<and> map_of ch ''RX Tone'' = Some (Str ''67.0'')
      \<and> map_of ch ''TX Tone'' = Some (Str ''67.0'')
      \<and> map_of ch ''Bandwidth (kHz)'' = Some (Str ''12.5''))"
  by (simp add: accepted_scenario derive_scenario disambiguate_free)

section \<open>The district column\<close>

lemma space_not_digit: "int_space c \<Longrightarrow> \<not> isdigit c"
  by (simp add: int_space_def isdigit_def Let_def) arith

lemma sign_not_digit: "c = CHR ''-'' \<or> c = CHR ''+'' \<Longrightarrow> \<not> isdigit c"
  by (auto simp: isdigit_def)

lemma py_int_single:
  "py_int [c] = (if isdigit c then Inr (int (digit_val c)) else Inl ValueError)"
proof (cases "int_space c")
  case True
  then show ?thesis by (simp add: py_int_def space_not_digit)
next
  case False
  show ?thesis
  proof (cases "c = CHR ''-'' \<or> c = CHR ''+''")
    case True
    with False show ?thesis using sign_not_digit[of c] by (auto simp: py_int_def)
  next
    case sgn: False
    have "\<not> isdigit (CHR ''_'')" by (simp add: isdigit_def)
    with False sgn show ?thesis by (simp add: py_int_def digits_val_def)
  qed
qed

lemma check_name_district_error:
  "check_name_district nm = Inl e \<Longrightarrow> e = IndexError \<or> e = ValueError"
  by (auto simp: check_name_district_def py_int_single Let_def split: if_splits)

lemma check_name_district_long:
  "DN_OFF < length nm \<Longrightarrow> check_name_district nm = Inl e \<Longrightarrow> e = ValueError"
  by (auto simp: check_name_district_def py_int_single Let_def split: if_splits)

lemma check_name_district_short:
  "length nm \<le> DN_OFF \<Longrightarrow> check_name_district nm = Inl IndexError"
  by (simp add: check_name_district_def)

text \<open>
  Claim C10, as amended. The filter accepts a record whose district column is any single
  character, and the deriver then evaluates \<^verbatim>\<open>int(row['district'])\<close>: for an accepted record
  whose district is not one decimal digit the deriver does not complete. It raises
  \<^verbatim>\<open>ValueError\<close> (at line 101, or already at line 99), except when the composed name has
  fewer than three characters: then line 98 raises \<^verbatim>\<open>IndexError\<close> first. So an accepted
  record is derived without an exception only if its district is a decimal digit.
\<close>

theorem district_not_digit_raises:
  assumes "accepted r" and "\<not> (\<exists>c. district r = [c] \<and> isdigit c)"
  shows "derive a r =
           (if length (proposed_name r) \<le> DN_OFF then Inl IndexError else Inl ValueError)"
proof -
  from assms(1) have "length (district r) = 1" by (simp add: accepted_def)
  then obtain c where c: "district r = [c]" by (cases "district r") auto
  with assms(2) have "\<not> isdigit c" by simp
  with c have bad: "py_int (district r) = Inl ValueError" by (simp add: py_int_single)
  show ?thesis
  proof (cases "length (proposed_name r) \<le> DN_OFF")
    case True
    then show ?thesis by (simp add: derive_def Let_def check_name_district_short)
  next
    case False
    then have long: "DN_OFF < length (proposed_name r)" by simp
    show ?thesis
    proof (cases "check_name_district (proposed_name r)")
      case (Inl e)
      with check_name_district_long[OF long] have "e = ValueError" by simp
      with Inl False show ?thesis by (simp add: derive_def Let_def)
    next
      case (Inr ws)
      with bad False show ?thesis by (simp add: derive_def Let_def)
    qed
  qed
qed

text \<open>The scenario record with district \<^verbatim>\<open>X\<close> is accepted and raises \<^verbatim>\<open>ValueError\<close>.\<close>

theorem district_not_digit_witness:
  "accepted ((scenario_row [] [] [])\<lparr>district := ''X''\<rparr>)
   \<and> derive \<lparr>allskip = None, home = None\<rparr> ((scenario_row [] [] [])\<lparr>district := ''X''\<rparr>)
       = Inl ValueError"
  using district_not_digit_raises
          [of "(scenario_row [] [] [])\<lparr>district := ''X''\<rparr>" "\<lparr>allskip = None, home = None\<rparr>"]
  by (simp add: scenario_row_def accepted_def derive_defs str_defs dec_defs Let_def)

text \<open>
  Claim C10 as stated fails where it names the exception: the scenario record with
  district \<^verbatim>\<open>X\<close> and empty call and city is accepted, its composed name is "2m", and
  the deriver raises \<^verbatim>\<open>IndexError\<close> at line 98, not \<^verbatim>\<open>ValueError\<close>.
\<close>

theorem short_name_counterexample:
  "accepted ((scenario_row [] [] [])\<lparr>district := ''X'', call := [], city := []\<rparr>)
   \<and> proposed_name ((scenario_row [] [] [])\<lparr>district := ''X'', call := [], city := []\<rparr>) = ''2m''
   \<and> derive \<lparr>allskip = None, home = None\<rparr>
        ((scenario_row [] [] [])\<lparr>district := ''X'', call := [], city := []\<rparr>) = Inl IndexError"
  by (simp add: scenario_row_def accepted_def derive_defs str_defs Let_def)

section \<open>The transmit shift\<close>

text \<open>
  Claim C3, at the failing input. The scenario record with tx_shift \<^verbatim>\<open>1.2.3\<close> passes the
  filter; the text left after removing points and dashes is numeric, so line 108 hands
  the shift to \<^verbatim>\<open>Decimal\<close>, which raises \<^verbatim>\<open>InvalidOperation\<close>: the run aborts where the
  claim has the shift default to zero.
\<close>

theorem malformed_shift_raises:
  "accepted ((scenario_row n la lo)\<lparr>tx_shift := ''1.2.3''\<rparr>)
   \<and> derive a ((scenario_row n la lo)\<lparr>tx_shift := ''1.2.3''\<rparr>) = Inl InvalidOperation"
  by (simp add: scenario_row_def accepted_def derive_defs str_defs dec_defs Let_def)

section \<open>The disambiguation loop need not return\<close>

text \<open>From a name in a set of taken names that one pass of the loop body maps into itself,
  the loop never reaches a free name.\<close>

lemma disambiguate_closed:
  assumes closed: "\<forall>n \<in> set taken. fst (rewrite_name m n) \<in> set taken"
    and start: "nm \<in> set taken"
  shows "disambiguate taken m nm ws = None"
proof (rule ccontr)
  assume "disambiguate taken m nm ws \<noteq> None"
  then obtain y where y: "disambiguate taken m nm ws = Some y" by auto
  have "taken = taken \<and> m = m \<longrightarrow> nm \<notin> set taken"
  proof (rule disambiguate.raw_induct
           [where P = "\<lambda>t m' n w y. t = taken \<and> m' = m \<longrightarrow> n \<notin> set taken", OF _ y])
    fix f t m' n w y'
    assume IH: "\<And>t m' n w y. f t m' n w = Some y \<Longrightarrow> t = taken \<and> m' = m \<longrightarrow> n \<notin> set taken"
      and step: "(if n \<in> set t
                  then f t m' (fst (rewrite_name m' n)) (w @ snd (rewrite_name m' n))
                  else Some (n, w)) = Some y'"
    show "t = taken \<and> m' = m \<longrightarrow> n \<notin> set taken"
    proof (intro impI notI)
      assume eq: "t = taken \<and> m' = m" and mem: "n \<in> set taken"
      with step have "f taken m (fst (rewrite_name m n)) (w @ snd (rewrite_name m n)) = Some y'"
        by simp
      from IH[OF this] have "fst (rewrite_name m n) \<notin> set taken" by simp
      with closed mem show False by blast
    qed
  qed
  with start show False by simp
qed

lemma stockholm_rewrites:
  "map (\<lambda>n. fst (rewrite_name ''FM'' n)) stockholm_names
     = tl stockholm_names @ [''SK0AB/Stockhol'']"
  by (simp add: stockholm_names_def rewrite_name_def str_defs)

lemma stockholm_closed:
  "\<forall>n \<in> set stockholm_names. fst (rewrite_name ''FM'' n) \<in> set stockholm_names"
proof -
  have "set (map (\<lambda>n. fst (rewrite_name ''FM'' n)) stockholm_names) \<subseteq> set stockholm_names"
    unfolding stockholm_rewrites by (simp add: stockholm_names_def)
  then show ?thesis by auto
qed

text \<open>
  Claim C2, at the failing input. With the twelve names of \<open>stockholm_names\<close> taken, the
  loop started on the proposed name "SK0AB Stockholm" of an FM channel does not return:
  the forced shortening of "SK0AB/Stockhol/F" gives back "SK0AB/Stockhol", which is
  taken, and the passes repeat from there.
\<close>

theorem cascade_never_returns:
  "disambiguate stockholm_names ''FM'' ''SK0AB Stockholm'' [] = None"
  by (rule disambiguate_closed[OF stockholm_closed]) (simp add: stockholm_names_def)

section \<open>The zone file\<close>

lemma split_on_field: "c \<notin> set x \<Longrightarrow> split_on c (x @ c # rest) = x # split_on c rest"
  by (induction x) auto

lemma split_on_last: "c \<notin> set x \<Longrightarrow> split_on c x = [x]"
  by (induction x) auto

lemma split_on_pad: "split_on c (replicate k c) = replicate (Suc k) []"
  by (induction k) auto

lemma split_on_last_pad:
  assumes "c \<notin> set x"
  shows "split_on c (x @ replicate k c) = x # replicate k []"
proof (cases k)
  case 0
  with assms show ?thesis by (simp add: split_on_last)
next
  case (Suc j)
  from assms have "split_on c (x @ c # replicate j c) = x # split_on c (replicate j c)"
    by (rule split_on_field)
  with Suc show ?thesis by (simp add: split_on_pad)
qed

lemma split_on_join:
  "xs \<noteq> [] \<Longrightarrow> \<forall>x \<in> set xs. c \<notin> set x \<Longrightarrow>
   split_on c (join [c] xs @ replicate k c) = xs @ replicate k []"
proof (induction xs rule: list_nonempty_induct)
  case (single x)
  then show ?case by (simp add: split_on_last_pad)
next
  case (cons x xs)
  then obtain y ys where xs: "xs = y # ys" by (cases xs) auto
  from cons have IH: "split_on c (join [c] xs @ replicate k c) = xs @ replicate k []" by simp
  from cons have "c \<notin> set x" by simp
  then have "split_on c (x @ c # (join [c] xs @ replicate k c))
              = x # split_on c (join [c] xs @ replicate k c)"
    by (rule split_on_field)
  with IH xs show ?case by simp
qed

lemma digits10_no_semicolon: "CHR '';'' \<notin> set (digits10 n)"
proof (induction n rule: digits10.induct)
  case (1 n)
  have d: "\<And>k. k < 10 \<Longrightarrow> digit_char k \<noteq> CHR '';''"
  proof -
    fix k :: nat assume "k < 10"
    then have "digit_char k \<in> set ''0123456789''" unfolding digit_char_def by (intro nth_mem) simp
    then show "digit_char k \<noteq> CHR '';''" by auto
  qed
  show ?case
  proof (cases "n < 10")
    case True
    then show ?thesis using d[of n] by (simp add: digits10.simps[of n])
  next
    case False
    then show ?thesis using 1 d[of "n mod 10"] by (simp add: digits10.simps[of n])
  qed
qed

lemma members81_no_semicolon: "\<forall>s \<in> set (''SM0 Analogue'' # members81). CHR '';'' \<notin> set s"
  by (auto simp: members81_def int_str_def digits10_no_semicolon)

lemma zone_line_fields:
  assumes "\<forall>s \<in> set (nm # members). CHR '';'' \<notin> set s"
  shows "split_on (CHR '';'')
           (join '';'' (nm # members) @ replicate (80 - length members) (CHR '';''))
         = nm # members @ replicate (80 - length members) []"
proof -
  from assms have "split_on (CHR '';'')
      (join [CHR '';''] (nm # members) @ replicate (80 - length members) (CHR '';''))
        = (nm # members) @ replicate (80 - length members) []"
    by (intro split_on_join) auto
  then show ?thesis by simp
qed

lemma zone_line_body:
  "zone_line nm members
     = (join '';'' (nm # members) @ replicate (80 - length members) (CHR '';'')) @ CRLF"
  by (simp add: zone_line_def)

lemma nonempty_zones_only:
  "concat (map (\<lambda>z. if 0 < length (snd z) then zone_line (fst z) (snd z) else []) zs)
     = concat (map (\<lambda>z. zone_line (fst z) (snd z)) (filter (\<lambda>z. snd z \<noteq> []) zs))"
  by (induction zs) auto

text \<open>
  Claim C6, as amended. The text of \<^verbatim>\<open>Zones.csv\<close> is the header followed by one line for
  each zone that has members, in catalog order; a zone without members has no line. The
  line of a zone is a body terminated by carriage return and line feed, and when neither
  the zone name nor a member name contains a semicolon, the fields of the body are the
  zone name, then the member names in insertion order, then empty fields up to 80 slots:
  none when the zone has 80 members or more, so a zone with more than 80 members has one
  slot for each member.
\<close>

theorem zone_rows_written:
  assumes "\<forall>s \<in> set (nm # members). CHR '';'' \<notin> set s"
  shows "zones_csv_text zs =
           zones_header @
           concat (map (\<lambda>z. zone_line (fst z) (snd z)) (filter (\<lambda>z. snd z \<noteq> []) zs))
         \<and> (\<exists>body. zone_line nm members = body @ CRLF
               \<and> split_on (CHR '';'') body = nm # members @ replicate (80 - length members) [])"
  using zone_line_fields[OF assms] zone_line_body[of nm members] nonempty_zones_only[of zs]
  by (auto simp: zones_csv_text_def)

text \<open>The zone of the scenario channel: the name, one member and 79 empty slots.\<close>

theorem zone_rows_written_witness:
  "zone_line ''SM3 Analogue'' [''SK30A Uppland 2m'']
     = ''SM3 Analogue;SK30A Uppland 2m'' @ replicate 79 (CHR '';'') @ CRLF
   \<and> split_on (CHR '';'') (''SM3 Analogue;SK30A Uppland 2m'' @ replicate 79 (CHR '';''))
       = ''SM3 Analogue'' # [''SK30A Uppland 2m''] @ replicate 79 []"
  using zone_rows_written[of "''SM3 Analogue''" "[''SK30A Uppland 2m'']" "[]"]
  by (simp add: zone_line_def)

text \<open>
  Claim C6 as stated fails for a zone with 81 members: its line is the zone name and 81
  member names with no padding, 82 fields, which is 81 channel slots and not 80.
\<close>

theorem zone_over_80_counterexample:
  "zone_line ''SM0 Analogue'' members81 = join '';'' (''SM0 Analogue'' # members81) @ CRLF
   \<and> length (split_on (CHR '';'') (join '';'' (''SM0 Analogue'' # members81))) = 82"
proof -
  have len: "length members81 = 81" by (simp add: members81_def)
  from zone_line_fields[OF members81_no_semicolon] len
  have "split_on (CHR '';'') (join '';'' (''SM0 Analogue'' # members81))
          = ''SM0 Analogue'' # members81"
    by simp
  with len zone_line_body[of "''SM0 Analogue''" members81] show ?thesis by simp
qed

section \<open>Fatal errors and warnings\<close>






section \<open>The registry and the emitted rows\<close>

lemma py_strip_length: "length (py_strip s) \<le> length s"
proof -
  have "length (dropWhile isspace (rev (dropWhile isspace s))) \<le> length (rev (dropWhile isspace s))"
    by (rule length_dropWhile_le)
  also have "\<dots> \<le> length s" by (simp add: length_dropWhile_le)
  finally show ?thesis by (simp add: py_strip_def)
qed

lemma proposed_name_length: "length (proposed_name r) \<le> 16"
proof -
  have "length (py_strip (take 16 s)) \<le> 16" for s
    using py_strip_length[of "take 16 s"] by simp
  then show ?thesis unfolding proposed_name_def Let_def by blast
qed

lemma slice_to_length: "length (slice_to s k) \<le> length s"
  by (auto simp: slice_to_def)

lemma py_replace1_length: "length (py_replace1 s [a] [b]) = length s"
  by (induction s) (auto simp: startswith_def)

lemma rewrite_name_length:
  assumes "length nm \<le> 16"
  shows "length (fst (rewrite_name m nm)) \<le> 16"
proof -
  have s: "length (slice_to nm k) \<le> 16" for k
    using slice_to_length[of nm k] assms by simp
  have t: "length (py_strip (slice_to nm k)) \<le> 16" for k
    using py_strip_length[of "slice_to nm k"] s[of k] by simp
  have a: "length (take 16 x) \<le> 16" for x :: string by simp
  show ?thesis unfolding rewrite_name_def using assms s t a
    by (auto simp: py_replace1_length simp del: take_append length_take)
qed

lemma disambiguate_result:
  assumes "disambiguate taken m nm ws = Some y"
  shows "(length nm \<le> 16 \<longrightarrow> length (fst y) \<le> 16) \<and> fst y \<notin> set taken"
proof (rule disambiguate.raw_induct
         [where P = "\<lambda>t m n w y. (length n \<le> 16 \<longrightarrow> length (fst y) \<le> 16) \<and> fst y \<notin> set t",
          OF _ assms])
  fix f t m' n w y'
  assume IH: "\<And>t m n w y. f t m n w = Some y \<Longrightarrow>
                 (length n \<le> 16 \<longrightarrow> length (fst y) \<le> 16) \<and> fst y \<notin> set t"
    and step: "(if n \<in> set t
                then f t m' (fst (rewrite_name m' n)) (w @ snd (rewrite_name m' n))
                else Some (n, w)) = Some y'"
  show "(length n \<le> 16 \<longrightarrow> length (fst y') \<le> 16) \<and> fst y' \<notin> set t"
  proof (cases "n \<in> set t")
    case True
    with step have "f t m' (fst (rewrite_name m' n)) (w @ snd (rewrite_name m' n)) = Some y'"
      by simp
    from IH[OF this] show ?thesis using rewrite_name_length[of n m'] by blast
  next
    case False
    with step show ?thesis by auto
  qed
qed

lemma derive_name: "derive a r = Inr (w, nm, ch) \<Longrightarrow> nm = proposed_name r"
  by (auto simp: derive_def Let_def split: sum.splits)

lemma process_rows_invariant:
  assumes "process_rows a rs chans ws = Some (Inr (chans', ws'))"
    and "distinct (map fst chans)" and "\<forall>n \<in> fst ` set chans. length n \<le> 16"
  shows "distinct (map fst chans') \<and> (\<forall>n \<in> fst ` set chans'. length n \<le> 16)"
  using assms
proof (induction rs arbitrary: chans ws)
  case Nil
  then show ?case by simp
next
  case (Cons r rs)
  show ?case
  proof (cases "accepted r")
    case False
    with Cons.prems have "process_rows a rs chans ws = Some (Inr (chans', ws'))" by simp
    from Cons.IH[OF this Cons.prems(2,3)] show ?thesis .
  next
    case True
    with Cons.prems(1) obtain w1 nm ch where d: "derive a r = Inr (w1, nm, ch)"
      by (auto split: sum.splits)
    with True Cons.prems(1) obtain nm' w2
      where dis: "disambiguate (map fst chans) (mode_tag ch) nm [] = Some (nm', w2)"
      by (auto split: option.splits)
    with True d Cons.prems(1)
    have run: "process_rows a rs (AList.update nm' ch chans) (ws @ w1 @ w2) = Some (Inr (chans', ws'))"
      by simp
    from derive_name[OF d] have "length nm \<le> 16" by (simp add: proposed_name_length)
    with disambiguate_result[OF dis] have len: "length nm' \<le> 16" by simp
    have dist: "distinct (map fst (AList.update nm' ch chans))"
      using Cons.prems(2) by (rule AList.distinct_update)
    have lens: "\<forall>n \<in> fst ` set (AList.update nm' ch chans). length n \<le> 16"
      using Cons.prems(3) len by (auto simp: AList.dom_update)
    from Cons.IH[OF run dist lens] show ?thesis .
  qed
qed

lemma keyed_sound:
  "keyed cs = Inr ks \<Longrightarrow> map snd ks = cs \<and> (\<forall>kc \<in> set ks. channel_key (snd kc) = Inr (fst kc))"
proof (induction cs arbitrary: ks)
  case Nil
  then show ?case by simp
next
  case (Cons c cs)
  then obtain k ks' where k: "channel_key c = Inr k" and ks': "keyed cs = Inr ks'"
    and eq: "ks = (k, c) # ks'"
    by (auto split: sum.splits)
  with Cons.IH[OF ks'] show ?case by simp
qed

lemma keyed_complete:
  "\<forall>kc \<in> set ks. channel_key (snd kc) = Inr (fst kc) \<Longrightarrow> keyed (map snd ks) = Inr ks"
  by (induction ks) auto

lemma sorted_channels_sound:
  assumes "sorted_channels channels = Inr cs"
  shows "\<exists>ks. keyed cs = Inr ks \<and> sorted (map fst ks) \<and> mset cs = mset channels"
proof -
  from assms obtain ks0 where k0: "keyed channels = Inr ks0"
    and cs: "cs = map snd (sort_key fst ks0)"
    by (auto simp: sorted_channels_def split: sum.splits)
  let ?ks = "sort_key fst ks0"
  from keyed_sound[OF k0] have m: "map snd ks0 = channels"
    and a: "\<forall>kc \<in> set ks0. channel_key (snd kc) = Inr (fst kc)" by auto
  from a have "\<forall>kc \<in> set ?ks. channel_key (snd kc) = Inr (fst kc)" by simp
  then have "keyed (map snd ?ks) = Inr ?ks" by (rule keyed_complete)
  moreover have "sorted (map fst ?ks)" by (rule sorted_sort_key)
  moreover have "mset (map snd ?ks) = mset (map snd ks0)" by simp
  ultimately show ?thesis using cs m by auto
qed

lemma field_update: "field (AList.update k (Str v) rw) k = v"
  by (simp add: field_def update_conv')

lemma number_rows_names: "map (\<lambda>rw. field rw ''Channel Name'') (number_rows i cs) = map fst cs"
  by (induction cs arbitrary: i) (auto simp: field_update)

lemma number_rows_numbers:
  "map (\<lambda>rw. map_of rw ''Channel Number'') (number_rows i cs)
     = map (\<lambda>j. Some (IntV (i + int j))) [1..<Suc (length cs)]"
proof (induction cs arbitrary: i)
  case Nil
  then show ?case by simp
next
  case (Cons c cs)
  have "[1..<Suc (length (c # cs))] = 1 # map Suc [1..<Suc (length cs)]"
    by (simp add: upt_conv_Cons map_Suc_upt del: upt_Suc)
  then show ?case using Cons[of "i + 1"]
    by (simp add: update_conv' o_def add.assoc del: upt_Suc)
qed

lemma ingest_row_name:
  "ingest_row cr = Inr (w, rw) \<Longrightarrow> length (field rw ''Channel Name'') \<le> 16"
proof -
  have "length (py_strip (take 16 s)) \<le> 16" for s
    using py_strip_length[of "take 16 s"] by simp
  then show "ingest_row cr = Inr (w, rw) \<Longrightarrow> length (field rw ''Channel Name'') \<le> 16"
    by (auto simp: ingest_row_def field_update split: option.splits sum.splits if_splits)
qed

lemma ingest_custom_rows:
  "ingest_custom custom = (crows, w0, err) \<Longrightarrow>
     (\<forall>rw \<in> set crows. length (field rw ''Channel Name'') \<le> 16)
     \<and> (err = None \<longrightarrow> length crows = length custom)"
proof (induction custom arbitrary: crows w0 err)
  case Nil
  then show ?case by simp
next
  case (Cons cr custom)
  show ?case
  proof (cases "ingest_row cr")
    case (Inl e)
    with Cons.prems show ?thesis by auto
  next
    case (Inr wr)
    obtain w rw where wr: "wr = (w, rw)" by (cases wr)
    obtain rws ws er where rest: "ingest_custom custom = (rws, ws, er)" by (cases "ingest_custom custom")
    with Inr wr Cons.prems have "crows = rw # rws" "err = er" by auto
    with Cons.IH[OF rest] ingest_row_name[of cr w rw] Inr wr show ?thesis by auto
  qed
qed

lemma main_finished:
  assumes "fst (main a custom rpt fs) = Finished"
  shows "\<exists>crows w0 channels w1 cs.
           ingest_custom custom = (crows, w0, None)
           \<and> process_rows a rpt [] [] = Some (Inr (channels, w1))
           \<and> sorted_channels channels = Inr cs
           \<and> channels_csv (fst (snd (main a custom rpt fs))) = Some (crows @ number_rows 500 cs)"
  using assms
  by (auto simp: main_def Let_def split: prod.splits option.splits sum.splits if_splits)

lemma ingest_example:
  "ingest_custom [custom_uppland] = ([hd example_rows], [], None)"
  by (simp add: custom_uppland_def example_rows_def ingest_row_def fieldnames_def py_int_def
        int_space_def digits_val_def digit_val_def str_defs Let_def)

lemma derive_dmr_row:
  "derive no_args dmr_row = Inr ([], ''SK0RMT Tyresta 7'', tyresta_channel)"
  by (simp add: dmr_row_def no_args_def tyresta_channel_def all_skip_def derive_defs str_defs
        dec_defs Let_def)

lemma derive_uppland:
  "derive no_args (scenario_row [] [] []) = Inr ([], ''SK30A Uppland 2m'', uppland_channel)"
  by (simp add: derive_scenario uppland_channel_def no_args_def all_skip_def)

lemma accepted_dmr_row: "accepted dmr_row"
  by (simp add: dmr_row_def accepted_def str_defs)

lemma process_example:
  "process_rows no_args [dmr_row, scenario_row [] [] []] [] []
     = Some (Inr ([(''SK0RMT Tyresta 7'', tyresta_channel), (''SK30A Uppland 2m'', uppland_channel)], []))"
  by (simp add: accepted_dmr_row accepted_scenario derive_dmr_row derive_uppland disambiguate_free)

lemma sorted_example:
  "sorted_channels [(''SK0RMT Tyresta 7'', tyresta_channel), (''SK30A Uppland 2m'', uppland_channel)]
     = Inr [(''SK30A Uppland 2m'', uppland_channel), (''SK0RMT Tyresta 7'', tyresta_channel)]"
  by (simp add: sorted_channels_def channel_key_def tyresta_channel_def uppland_channel_def
        DN_OFF_def Decimal_def plain_number_def digits_val_def digit_val_def str_defs Let_def)

lemma rows_example:
  "[hd example_rows] @ number_rows 500
      [(''SK30A Uppland 2m'', uppland_channel), (''SK0RMT Tyresta 7'', tyresta_channel)]
     = example_rows"
  by (simp add: example_rows_def tyresta_channel_def uppland_channel_def)

lemma bucket_example: "\<exists>zs w. bucket_rows empty_zones example_rows = Inr (zs, w)"
  by (simp add: example_rows_def tyresta_channel_def uppland_channel_def empty_zones_def
        valid_districts_def int_str_def digits10_small digit_char_def bucket_row_def bucket_dmr_def
        zone_append_def zone_full_def field_def DN_OFF_def str_defs Let_def)

lemma example_run:
  "fst (main no_args [custom_uppland] [dmr_row, scenario_row [] [] []] no_files) = Finished
   \<and> channels_csv (fst (snd (main no_args [custom_uppland] [dmr_row, scenario_row [] [] []] no_files)))
       = Some example_rows"
proof -
  from bucket_example obtain zs w where "bucket_rows empty_zones example_rows = Inr (zs, w)"
    by blast
  moreover have "\<not> args_rejected no_args" by (simp add: args_rejected_def no_args_def)
  ultimately show ?thesis
    using rows_example
    by (simp add: main_def ingest_example process_example sorted_example Let_def
          del: process_rows.simps ingest_custom.simps)
qed

lemma ingest_custom_order:
  "ingest_custom custom = (crows, w0, None) \<Longrightarrow>
     list_all2 (\<lambda>cr rw. \<exists>w. ingest_row cr = Inr (w, rw)) custom crows"
proof (induction custom arbitrary: crows w0)
  case Nil
  then show ?case by simp
next
  case (Cons cr custom)
  show ?case
  proof (cases "ingest_row cr")
    case (Inl e)
    with Cons.prems show ?thesis by auto
  next
    case (Inr wr)
    obtain w rw where wr: "wr = (w, rw)" by (cases wr)
    obtain rws ws er where rest: "ingest_custom custom = (rws, ws, er)"
      by (cases "ingest_custom custom")
    with Inr wr Cons.prems have "crows = rw # rws" "er = None" by auto
    with Cons.IH[of rws ws] rest Inr wr show ?thesis by auto
  qed
qed

lemma number_rows_fields:
  "list_all2 (\<lambda>c rw. \<forall>k. k \<noteq> ''Channel Number'' \<and> k \<noteq> ''Channel Name''
                          \<longrightarrow> map_of rw k = map_of (snd c) k) cs (number_rows i cs)"
  by (induction cs arbitrary: i) (auto simp: update_conv')

text \<open>
  What the loop of line 156 does achieve: in a run that finishes, every Channel Name of
  \<^verbatim>\<open>Channels.csv\<close> has at most 16 characters and no two generated rows have the same
  Channel Name.
\<close>

lemma generated_names_distinct:
  assumes "fst (main a custom rpt fs) = Finished"
  shows "\<exists>crows grows.
           channels_csv (fst (snd (main a custom rpt fs))) = Some (crows @ grows)
           \<and> length crows = length custom
           \<and> (\<forall>rw \<in> set (crows @ grows). length (field rw ''Channel Name'') \<le> 16)
           \<and> distinct (map (\<lambda>rw. field rw ''Channel Name'') grows)"
proof -
  from main_finished[OF assms] obtain crows w0 channels w1 cs
    where ing: "ingest_custom custom = (crows, w0, None)"
      and run: "process_rows a rpt [] [] = Some (Inr (channels, w1))"
      and srt: "sorted_channels channels = Inr cs"
      and out: "channels_csv (fst (snd (main a custom rpt fs))) = Some (crows @ number_rows 500 cs)"
    by blast
  from process_rows_invariant[OF run] have d: "distinct (map fst channels)"
    and l: "\<forall>n \<in> fst ` set channels. length n \<le> 16" by auto
  from sorted_channels_sound[OF srt] have m: "mset cs = mset channels" by blast
  then have "mset (map fst cs) = mset (map fst channels)" by simp
  with d have d': "distinct (map fst cs)" by (metis mset_eq_imp_distinct_iff)
  from m have "set cs = set channels" by (rule mset_eq_setD)
  with l have l': "\<forall>n \<in> set (map fst cs). length n \<le> 16" by auto
  have names: "map (\<lambda>rw. field rw ''Channel Name'') (number_rows 500 cs) = map fst cs"
    by (rule number_rows_names)
  have "\<forall>rw \<in> set (number_rows 500 cs). length (field rw ''Channel Name'') \<le> 16"
  proof
    fix rw assume "rw \<in> set (number_rows 500 cs)"
    then have "field rw ''Channel Name''
                 \<in> set (map (\<lambda>rw. field rw ''Channel Name'') (number_rows 500 cs))"
      by simp
    with names l' show "length (field rw ''Channel Name'') \<le> 16" by auto
  qed
  with ingest_custom_rows[OF ing] out d' names
  have "channels_csv (fst (snd (main a custom rpt fs))) = Some (crows @ number_rows 500 cs)
        \<and> length crows = length custom
        \<and> (\<forall>rw \<in> set (crows @ number_rows 500 cs). length (field rw ''Channel Name'') \<le> 16)
        \<and> distinct (map (\<lambda>rw. field rw ''Channel Name'') (number_rows 500 cs))"
    by auto
  then show ?thesis by blast
qed

text \<open>
  Claim C1, at the failing input. The run on the custom channel "SK30A Uppland 2m" and
  the repeaters SK0RMT and SK3\<open>\<Oslash>\<close>A finishes, and \<^verbatim>\<open>Channels.csv\<close> then holds two rows with
  the Channel Name "SK30A Uppland 2m": the custom row and the row generated for the
  scenario record. The loop of line 156 compares a generated name with the generated
  names only.
\<close>

theorem custom_name_collides:
  "fst (main no_args [custom_uppland] [dmr_row, scenario_row [] [] []] no_files) = Finished
   \<and> channels_csv (fst (snd (main no_args [custom_uppland] [dmr_row, scenario_row [] [] []] no_files)))
       = Some example_rows
   \<and> field (example_rows ! 0) ''Channel Name'' = ''SK30A Uppland 2m''
   \<and> field (example_rows ! 1) ''Channel Name'' = ''SK30A Uppland 2m''"
  using example_run by (simp add: example_rows_def uppland_channel_def field_def)

lemma derive_fm_row:
  "derive no_args (fm_row ''SK3AB'' ''Uppsala'' ''145.7'')
     = Inr ([], ''SK3AB Uppsala 2m'', fm_channel ''145.7'' ''145.100'')"
  "derive no_args (fm_row ''SK0XY'' ''Uppsala'' ''145.7'')
     = Inr ([], ''SK0XY Uppsala 2m'', fm_channel ''145.7'' ''145.100'')"
  "derive no_args (fm_row ''SK3AB'' ''Tierp'' ''145.65'')
     = Inr ([], ''SK3AB Tierp 2m'', fm_channel ''145.65'' ''145.050'')"
  by (simp_all add: fm_row_def fm_channel_def no_args_def all_skip_def scenario_row_def
        derive_defs str_defs dec_defs Let_def)

lemma accepted_fm_row: "accepted (fm_row cl ct out)"
  by (simp add: fm_row_def scenario_row_def accepted_def str_defs)

lemma process_three:
  "process_rows no_args three_rows [] [] = Some (Inr (three_registered, []))"
  by (simp add: three_rows_def three_registered_def accepted_fm_row derive_fm_row
        disambiguate_free)

lemma sorted_three: "sorted_channels three_registered = Inr three_sorted"
  by (simp add: three_registered_def three_sorted_def fm_channel_def sorted_channels_def
        channel_key_def DN_OFF_def Decimal_def plain_number_def digits_val_def digit_val_def
        dec_val_def str_defs Let_def)

lemma channel_key_fields:
  assumes "channel_key c = Inr k"
  shows "\<exists>t rx d. map_of (snd c) ''Channel Type'' = Some (Str t)
           \<and> map_of (snd c) ''Rx Frequency'' = Some (Str rx) \<and> Decimal rx = Inr d
           \<and> DN_OFF < length (fst c) \<and> k = (t, fst c ! DN_OFF, dec_val d)"
  using assms
  by (auto simp: channel_key_def split: option.splits pyval.splits if_splits sum.splits)

lemma number_rows_nth:
  "i < length cs \<Longrightarrow>
   number_rows n cs ! i
     = AList.update ''Channel Name'' (Str (fst (cs ! i)))
         (AList.update ''Channel Number'' (IntV (n + 1 + int i)) (snd (cs ! i)))"
proof (induction cs arbitrary: n i)
  case Nil
  then show ?case by simp
next
  case (Cons c cs)
  show ?case
  proof (cases i)
    case 0
    then show ?thesis by simp
  next
    case (Suc j)
    with Cons.prems have "j < length cs" by simp
    from Cons.IH[OF this, of "n + 1"] Suc show ?thesis by (simp add: add.assoc)
  qed
qed

lemma number_rows_length: "length (number_rows n cs) = length cs"
  by (induction cs arbitrary: n) auto

lemma emitted_row_fields:
  assumes "i < length cs" and "map_of (snd (cs ! i)) ''Channel Type'' = Some (Str t)"
    and "map_of (snd (cs ! i)) ''Rx Frequency'' = Some (Str rx)"
  shows "field (number_rows n cs ! i) ''Channel Type'' = t
       \<and> field (number_rows n cs ! i) ''Rx Frequency'' = rx
       \<and> field (number_rows n cs ! i) ''Channel Name'' = fst (cs ! i)
       \<and> map_of (number_rows n cs ! i) ''Channel Number'' = Some (IntV (n + 1 + int i))"
  using assms by (simp add: number_rows_nth field_def update_conv')

lemma sorted_channels_order:
  assumes "sorted_channels channels = Inr cs" and "i < j" and "j < length cs"
  shows "\<exists>di dj.
           Decimal (field (number_rows n cs ! i) ''Rx Frequency'') = Inr di
         \<and> Decimal (field (number_rows n cs ! j) ''Rx Frequency'') = Inr dj
         \<and> DN_OFF < length (field (number_rows n cs ! i) ''Channel Name'')
         \<and> DN_OFF < length (field (number_rows n cs ! j) ''Channel Name'')
         \<and> (field (number_rows n cs ! i) ''Channel Type'' < field (number_rows n cs ! j) ''Channel Type''
            \<or> field (number_rows n cs ! i) ''Channel Type'' = field (number_rows n cs ! j) ''Channel Type''
              \<and> (field (number_rows n cs ! i) ''Channel Name'' ! DN_OFF
                    < field (number_rows n cs ! j) ''Channel Name'' ! DN_OFF
                 \<or> field (number_rows n cs ! i) ''Channel Name'' ! DN_OFF
                    = field (number_rows n cs ! j) ''Channel Name'' ! DN_OFF
                   \<and> dec_val di \<le> dec_val dj))"
proof -
  from sorted_channels_sound[OF assms(1)] obtain ks
    where ks: "keyed cs = Inr ks" and srt: "sorted (map fst ks)" by blast
  from keyed_sound[OF ks] have m: "map snd ks = cs"
    and a: "\<forall>kc \<in> set ks. channel_key (snd kc) = Inr (fst kc)" by auto
  from m have len: "length ks = length cs" by (metis length_map)
  with assms have i: "i < length ks" and j: "j < length ks" by auto
  from m i have si: "snd (ks ! i) = cs ! i" by (metis nth_map)
  from m j have sj: "snd (ks ! j) = cs ! j" by (metis nth_map)
  from a i si have ki: "channel_key (cs ! i) = Inr (fst (ks ! i))" by (metis nth_mem)
  from a j sj have kj: "channel_key (cs ! j) = Inr (fst (ks ! j))" by (metis nth_mem)
  from srt assms(2) i j have le: "fst (ks ! i) \<le> fst (ks ! j)"
    using sorted_nth_mono[of "map fst ks" i j] by simp
  from channel_key_fields[OF ki] obtain ti rxi di where
    fi: "map_of (snd (cs ! i)) ''Channel Type'' = Some (Str ti)"
        "map_of (snd (cs ! i)) ''Rx Frequency'' = Some (Str rxi)" "Decimal rxi = Inr di"
        "DN_OFF < length (fst (cs ! i))" "fst (ks ! i) = (ti, fst (cs ! i) ! DN_OFF, dec_val di)"
    by blast
  from channel_key_fields[OF kj] obtain tj rxj dj where
    fj: "map_of (snd (cs ! j)) ''Channel Type'' = Some (Str tj)"
        "map_of (snd (cs ! j)) ''Rx Frequency'' = Some (Str rxj)" "Decimal rxj = Inr dj"
        "DN_OFF < length (fst (cs ! j))" "fst (ks ! j) = (tj, fst (cs ! j) ! DN_OFF, dec_val dj)"
    by blast
  from assms have i': "i < length cs" by simp
  from le fi(5) fj(5)
  have ord: "ti < tj \<or> ti = tj \<and> (fst (cs ! i) ! DN_OFF < fst (cs ! j) ! DN_OFF
               \<or> fst (cs ! i) ! DN_OFF = fst (cs ! j) ! DN_OFF \<and> dec_val di \<le> dec_val dj)"
    by (auto simp: less_eq_prod_def)
  from emitted_row_fields[OF i' fi(1,2), of n] emitted_row_fields[OF assms(3) fj(1,2), of n]
    fi(3,4) fj(3,4) ord
  show ?thesis by auto
qed

lemma main_emits:
  assumes "\<not> args_rejected a" and "ingest_custom custom = (crows, w0, None)"
    and "process_rows a rpt [] [] = Some (Inr (channels, w1))"
    and "sorted_channels channels = Inr cs"
  shows "channels_csv (fst (snd (main a custom rpt fs))) = Some (crows @ number_rows 500 cs)"
  using assms by (simp add: main_def Let_def split: sum.splits prod.splits)

text \<open>
  Claim C4. Whenever the run reaches line 194 (the arguments pass, the custom file and
  the repeater file are read without an exception and every sort key can be computed),
  and whether or not the zone pass then succeeds, \<^verbatim>\<open>Channels.csv\<close> holds the custom rows in
  the order of the custom file, each as line 64 rewrites it, followed by the generated
  rows. The generated rows are the registered channels, each once; each row is its channel
  with Channel Name set to the registered name and Channel Number set to 501, 502, and so
  on in that order; and of any two generated rows the earlier one has the smaller
  Channel Type, or the same Channel Type and the smaller character at offset 2 of the
  name, or the same of both and an Rx Frequency whose decimal value is not greater.
\<close>

theorem sorted_emission:
  assumes "\<not> args_rejected a" and "ingest_custom custom = (crows, w0, None)"
    and "process_rows a rpt [] [] = Some (Inr (channels, w1))"
    and "sorted_channels channels = Inr cs"
  shows "channels_csv (fst (snd (main a custom rpt fs))) = Some (crows @ number_rows 500 cs)
       \<and> list_all2 (\<lambda>cr rw. \<exists>w. ingest_row cr = Inr (w, rw)) custom crows
       \<and> mset cs = mset channels
       \<and> list_all2 (\<lambda>c rw. \<forall>k. k \<noteq> ''Channel Number'' \<and> k \<noteq> ''Channel Name''
                               \<longrightarrow> map_of rw k = map_of (snd c) k) cs (number_rows 500 cs)
       \<and> map (\<lambda>rw. field rw ''Channel Name'') (number_rows 500 cs) = map fst cs
       \<and> map (\<lambda>rw. map_of rw ''Channel Number'') (number_rows 500 cs)
           = map (\<lambda>j. Some (IntV (500 + int j))) [1..<Suc (length cs)]
       \<and> (\<forall>i j. i < j \<and> j < length cs \<longrightarrow>
            (\<exists>di dj.
               Decimal (field (number_rows 500 cs ! i) ''Rx Frequency'') = Inr di
             \<and> Decimal (field (number_rows 500 cs ! j) ''Rx Frequency'') = Inr dj
             \<and> DN_OFF < length (field (number_rows 500 cs ! i) ''Channel Name'')
             \<and> DN_OFF < length (field (number_rows 500 cs ! j) ''Channel Name'')
             \<and> (field (number_rows 500 cs ! i) ''Channel Type''
                   < field (number_rows 500 cs ! j) ''Channel Type''
                \<or> field (number_rows 500 cs ! i) ''Channel Type''
                   = field (number_rows 500 cs ! j) ''Channel Type''
                  \<and> (field (number_rows 500 cs ! i) ''Channel Name'' ! DN_OFF
                        < field (number_rows 500 cs ! j) ''Channel Name'' ! DN_OFF
                     \<or> field (number_rows 500 cs ! i) ''Channel Name'' ! DN_OFF
                        = field (number_rows 500 cs ! j) ''Channel Name'' ! DN_OFF
                       \<and> dec_val di \<le> dec_val dj))))"
proof -
  from sorted_channels_sound[OF assms(4)] have m: "mset cs = mset channels" by blast
  have ord: "\<forall>i j. i < j \<and> j < length cs \<longrightarrow>
            (\<exists>di dj.
               Decimal (field (number_rows 500 cs ! i) ''Rx Frequency'') = Inr di
             \<and> Decimal (field (number_rows 500 cs ! j) ''Rx Frequency'') = Inr dj
             \<and> DN_OFF < length (field (number_rows 500 cs ! i) ''Channel Name'')
             \<and> DN_OFF < length (field (number_rows 500 cs ! j) ''Channel Name'')
             \<and> (field (number_rows 500 cs ! i) ''Channel Type''
                   < field (number_rows 500 cs ! j) ''Channel Type''
                \<or> field (number_rows 500 cs ! i) ''Channel Type''
                   = field (number_rows 500 cs ! j) ''Channel Type''
                  \<and> (field (number_rows 500 cs ! i) ''Channel Name'' ! DN_OFF
                        < field (number_rows 500 cs ! j) ''Channel Name'' ! DN_OFF
                     \<or> field (number_rows 500 cs ! i) ''Channel Name'' ! DN_OFF
                        = field (number_rows 500 cs ! j) ''Channel Name'' ! DN_OFF
                       \<and> dec_val di \<le> dec_val dj)))"
    using sorted_channels_order[OF assms(4)] by blast
  from main_emits[OF assms] ingest_custom_order[OF assms(2)] m number_rows_fields[of cs 500]
    number_rows_names[of 500 cs] number_rows_numbers[of 500 cs] ord
  show ?thesis by (intro conjI)
qed

text \<open>
  Three FM repeaters read in the order SK3AB Uppsala 145.7, SK0XY Uppsala 145.7, SK3AB
  Tierp 145.65 are emitted as SK0XY Uppsala (district character 0 before 3), SK3AB Tierp
  (145.65 before 145.7), SK3AB Uppsala.
\<close>

theorem sorted_emission_witness:
  "\<not> args_rejected no_args \<and> ingest_custom [] = ([], [], None)
   \<and> process_rows no_args three_rows [] [] = Some (Inr (three_registered, []))
   \<and> sorted_channels three_registered = Inr three_sorted
   \<and> channels_csv (fst (snd (main no_args [] three_rows no_files)))
       = Some ([] @ number_rows 500 three_sorted)
   \<and> map (\<lambda>rw. field rw ''Channel Name'') (number_rows 500 three_sorted)
       = [''SK0XY Uppsala 2m'', ''SK3AB Tierp 2m'', ''SK3AB Uppsala 2m'']
   \<and> map (\<lambda>rw. field rw ''Rx Frequency'') (number_rows 500 three_sorted)
       = [''145.7'', ''145.65'', ''145.7'']
   \<and> map (\<lambda>rw. map_of rw ''Channel Number'') (number_rows 500 three_sorted)
       = [Some (IntV 501), Some (IntV 502), Some (IntV 503)]"
proof -
  have a: "\<not> args_rejected no_args" by (simp add: args_rejected_def no_args_def)
  have b: "ingest_custom [] = ([], [], None)" by simp
  from sorted_emission[OF a b process_three sorted_three, of no_files]
  have "channels_csv (fst (snd (main no_args [] three_rows no_files)))
          = Some ([] @ number_rows 500 three_sorted)" by blast
  with a b process_three sorted_three show ?thesis
    by (simp add: three_sorted_def fm_channel_def field_def)
qed

section \<open>Errors and warnings in the whole run\<close>


























end
